theory Spec2Isabelle
  imports Complex_Main "HOL-Library.AList"
begin

section \<open>The values of the language\<close>

text \<open>
  The front-end data loader (\<^verbatim>\<open>tools/frontend-data-loader.js\<close>) works on plain JSON data:
  cells of rows, filter values, column names. The development models these values, the
  coercions of the language that the loader relies on, and then the loader's functions in
  the order of the source file.

  Numbers are modelled exactly: a finite number is a rational, next to the two infinities
  and NaN. The rounding of binary64 arithmetic and the sign of zero are outside the model.
\<close>

datatype jsnum = Fin rat | PInf | NInf | NaN

fun num_add :: "jsnum \<Rightarrow> jsnum \<Rightarrow> jsnum" where
  "num_add NaN _ = NaN"
| "num_add _ NaN = NaN"
| "num_add PInf NInf = NaN"
| "num_add NInf PInf = NaN"
| "num_add PInf _ = PInf"
| "num_add _ PInf = PInf"
| "num_add NInf _ = NInf"
| "num_add _ NInf = NInf"
| "num_add (Fin a) (Fin b) = Fin (a + b)"

fun num_div :: "jsnum \<Rightarrow> jsnum \<Rightarrow> jsnum" where
  "num_div NaN _ = NaN"
| "num_div _ NaN = NaN"
| "num_div (Fin a) PInf = Fin 0"
| "num_div (Fin a) NInf = Fin 0"
| "num_div _ PInf = NaN"
| "num_div _ NInf = NaN"
| "num_div PInf (Fin b) = (if b < 0 then NInf else PInf)"
| "num_div NInf (Fin b) = (if b < 0 then PInf else NInf)"
| "num_div (Fin a) (Fin b) =
     (if b \<noteq> 0 then Fin (a / b)
      else if a = 0 then NaN else if 0 < a then PInf else NInf)"

text \<open>
  A value is \<^verbatim>\<open>undefined\<close>, \<^verbatim>\<open>null\<close>, a boolean, a number, a string, an array or a
  plain object. An object is the list of its own properties in enumeration order, which
  for keys that are not array indices is the order of insertion.
\<close>

datatype jsval =
    JUndefined
  | JNull
  | JBool bool
  | JNum jsnum
  | JStr string
  | JArr "jsval list"
  | JObj "(string \<times> jsval) list"

type_synonym row = "jsval list"

type_synonym obj = "(string \<times> jsval) list"

text \<open>ToBoolean: the falsy values are undefined, null, false, 0, NaN and the empty string.\<close>

fun truthy :: "jsval \<Rightarrow> bool" where
  "truthy JUndefined = False"
| "truthy JNull = False"
| "truthy (JBool b) = b"
| "truthy (JNum n) = (n \<noteq> Fin 0 \<and> n \<noteq> NaN)"
| "truthy (JStr s) = (s \<noteq> [])"
| "truthy (JArr _) = True"
| "truthy (JObj _) = True"

text \<open>\<^verbatim>\<open>a || b\<close> and \<^verbatim>\<open>a ?? b\<close>.\<close>

definition js_or :: "jsval \<Rightarrow> jsval \<Rightarrow> jsval" where
  "js_or a b = (if truthy a then a else b)"

definition nullish :: "jsval \<Rightarrow> bool" where
  "nullish v = (v = JUndefined \<or> v = JNull)"

definition js_coalesce :: "jsval \<Rightarrow> jsval \<Rightarrow> jsval" where
  "js_coalesce a b = (if nullish a then b else a)"

text \<open>
  Arrays and objects are compared by identity. The arrays and objects inside a row are
  created by decoding a partition, so none of them is identical to a value that reaches
  the loader from elsewhere: a comparison that involves one is false.
\<close>

fun primitive :: "jsval \<Rightarrow> bool" where
  "primitive (JArr _) = False"
| "primitive (JObj _) = False"
| "primitive _ = True"

text \<open>\<^verbatim>\<open>a === b\<close>: NaN is not equal to itself.\<close>

definition strict_eq :: "jsval \<Rightarrow> jsval \<Rightarrow> bool" where
  "strict_eq a b = (primitive a \<and> a = b \<and> a \<noteq> JNum NaN)"

text \<open>SameValueZero, the comparison of \<^verbatim>\<open>Array.prototype.includes\<close>: NaN equals NaN.\<close>

definition same_value_zero :: "jsval \<Rightarrow> jsval \<Rightarrow> bool" where
  "same_value_zero a b = (primitive a \<and> a = b)"

definition js_includes :: "jsval list \<Rightarrow> jsval \<Rightarrow> bool" where
  "js_includes vs x = list_ex (\<lambda>v. same_value_zero v x) vs"

text \<open>\<^verbatim>\<open>row[idx]\<close>: reading past the end of an array, or at \<^verbatim>\<open>undefined\<close>, gives undefined.\<close>

definition cell_at :: "jsval list \<Rightarrow> nat option \<Rightarrow> jsval" where
  "cell_at row idx =
     (case idx of
        None \<Rightarrow> JUndefined
      | Some i \<Rightarrow> if i < length row then row ! i else JUndefined)"

section \<open>Conversions between values, strings and numbers\<close>

definition digit_char :: "nat \<Rightarrow> char" where
  "digit_char d = char_of (48 + d)"

fun nat_digits :: "nat \<Rightarrow> string" where
  "nat_digits n =
     (if n < 10 then [digit_char n] else nat_digits (n div 10) @ [digit_char (n mod 10)])"

declare nat_digits.simps [simp del]

fun frac_digits :: "nat \<Rightarrow> rat \<Rightarrow> string" where
  "frac_digits 0 r = []"
| "frac_digits (Suc n) r =
     (if r = 0 then []
      else (let d = nat \<lfloor>r * 10\<rfloor> in digit_char d # frac_digits n (r * 10 - of_nat d)))"

definition unsigned_string :: "rat \<Rightarrow> string" where
  "unsigned_string q =
     (let i = nat \<lfloor>q\<rfloor>; r = q - of_nat i
      in nat_digits i @ (if r = 0 then [] else CHR ''.'' # frac_digits 17 r))"

text \<open>
  Number::toString. An integer is printed as its decimal numeral, as the language does
  for magnitudes below \<open>10\<^sup>2\<^sup>1\<close>. For any other finite number the language prints the
  shortest decimal that reads back as the same binary64 value; the exact model prints the
  decimal expansion, cut after 17 fractional digits, which is the same string for a
  decimal with a short expansion such as 12.5.
\<close>

fun NumberToString :: "jsnum \<Rightarrow> string" where
  "NumberToString NaN = ''NaN''"
| "NumberToString PInf = ''Infinity''"
| "NumberToString NInf = ''-Infinity''"
| "NumberToString (Fin q) =
     (if q < 0 then CHR ''-'' # unsigned_string (- q) else unsigned_string q)"

fun join :: "string \<Rightarrow> string list \<Rightarrow> string" where
  "join sep [] = []"
| "join sep [x] = x"
| "join sep (x # y # ys) = x @ sep @ join sep (y # ys)"

text \<open>
  ToString. An array is the comma-joined strings of its elements, where undefined and
  null elements give the empty string; a plain object is \<^verbatim>\<open>[object Object]\<close>.
\<close>

fun ToString :: "jsval \<Rightarrow> string" where
  "ToString JUndefined = ''undefined''"
| "ToString JNull = ''null''"
| "ToString (JBool b) = (if b then ''true'' else ''false'')"
| "ToString (JNum n) = NumberToString n"
| "ToString (JStr s) = s"
| "ToString (JArr xs) = join '','' (map (\<lambda>x. if nullish x then [] else ToString x) xs)"
| "ToString (JObj ps) = ''[object Object]''"

text \<open>\<^verbatim>\<open>Array.prototype.join\<close>.\<close>

definition array_join :: "string \<Rightarrow> jsval list \<Rightarrow> string" where
  "array_join sep xs = join sep (map (\<lambda>x. if nullish x then [] else ToString x) xs)"

text \<open>
  StringToNumber, the grammar of numeric strings: white space is trimmed (the ASCII white
  space and line terminators here), the empty string is 0, then come the hexadecimal,
  octal and binary integers and the signed decimals with an optional fraction and
  exponent, and \<^verbatim>\<open>Infinity\<close>. Every other string is NaN.
\<close>

definition is_ws :: "char \<Rightarrow> bool" where
  "is_ws c = (c \<in> set [CHR 0x09, CHR 0x0A, CHR 0x0B, CHR 0x0C, CHR 0x0D, CHR 0x20])"

definition trim :: "string \<Rightarrow> string" where
  "trim s = rev (dropWhile is_ws (rev (dropWhile is_ws s)))"

definition digit_value :: "char \<Rightarrow> nat option" where
  "digit_value c =
     (let n = (of_char c :: nat) in
      if 48 \<le> n \<and> n \<le> 57 then Some (n - 48)
      else if 97 \<le> n \<and> n \<le> 102 then Some (n - 87)
      else if 65 \<le> n \<and> n \<le> 70 then Some (n - 55)
      else None)"

fun digits_value :: "nat \<Rightarrow> nat \<Rightarrow> string \<Rightarrow> nat option" where
  "digits_value base acc [] = Some acc"
| "digits_value base acc (c # cs) =
     (case digit_value c of
        None \<Rightarrow> None
      | Some d \<Rightarrow> if d < base then digits_value base (acc * base + d) cs else None)"

definition parse_digits :: "nat \<Rightarrow> string \<Rightarrow> nat option" where
  "parse_digits base s = (if s = [] then None else digits_value base 0 s)"

definition parse_exponent :: "string \<Rightarrow> int option" where
  "parse_exponent s =
     (case s of
        [] \<Rightarrow> None
      | c # ds \<Rightarrow>
          if c = CHR ''+'' then map_option int (parse_digits 10 ds)
          else if c = CHR ''-'' then map_option (\<lambda>n. - int n) (parse_digits 10 ds)
          else map_option int (parse_digits 10 s))"

definition parse_mantissa :: "string \<Rightarrow> rat option" where
  "parse_mantissa s =
     (let ip = takeWhile (\<lambda>c. c \<noteq> CHR ''.'') s;
          rest = dropWhile (\<lambda>c. c \<noteq> CHR ''.'') s
      in case rest of
           [] \<Rightarrow> map_option of_nat (parse_digits 10 ip)
         | dot # fp \<Rightarrow>
             if ip = [] \<and> fp = [] then None
             else (case (digits_value 10 0 ip, digits_value 10 0 fp) of
                     (Some i, Some f) \<Rightarrow> Some (of_nat i + of_nat f / 10 ^ length fp)
                   | _ \<Rightarrow> None))"

definition pow10 :: "int \<Rightarrow> rat" where
  "pow10 e = (if 0 \<le> e then 10 ^ nat e else 1 / 10 ^ nat (- e))"

definition parse_decimal :: "string \<Rightarrow> jsnum" where
  "parse_decimal s =
     (if s = ''Infinity'' then PInf
      else (let m = takeWhile (\<lambda>c. c \<noteq> CHR ''e'' \<and> c \<noteq> CHR ''E'') s;
                rest = dropWhile (\<lambda>c. c \<noteq> CHR ''e'' \<and> c \<noteq> CHR ''E'') s
            in case parse_mantissa m of
                 None \<Rightarrow> NaN
               | Some q \<Rightarrow>
                   (case rest of
                      [] \<Rightarrow> Fin q
                    | e # ex \<Rightarrow>
                        (case parse_exponent ex of
                           None \<Rightarrow> NaN
                         | Some k \<Rightarrow> Fin (q * pow10 k)))))"

fun num_neg :: "jsnum \<Rightarrow> jsnum" where
  "num_neg NaN = NaN"
| "num_neg PInf = NInf"
| "num_neg NInf = PInf"
| "num_neg (Fin q) = Fin (- q)"

definition parse_radix :: "nat \<Rightarrow> string \<Rightarrow> jsnum" where
  "parse_radix base s = (case parse_digits base s of None \<Rightarrow> NaN | Some n \<Rightarrow> Fin (of_nat n))"

definition StringToNumber :: "string \<Rightarrow> jsnum" where
  "StringToNumber str =
     (let s = trim str in
      if s = [] then Fin 0
      else if take 2 s = ''0x'' \<or> take 2 s = ''0X'' then parse_radix 16 (drop 2 s)
      else if take 2 s = ''0o'' \<or> take 2 s = ''0O'' then parse_radix 8 (drop 2 s)
      else if take 2 s = ''0b'' \<or> take 2 s = ''0B'' then parse_radix 2 (drop 2 s)
      else if hd s = CHR ''+'' then parse_decimal (tl s)
      else if hd s = CHR ''-'' then num_neg (parse_decimal (tl s))
      else parse_decimal s)"

text \<open>
  ToNumber, which is what \<^verbatim>\<open>Number(v)\<close> computes: an array or object is first turned into
  its string.
\<close>

fun ToNumber :: "jsval \<Rightarrow> jsnum" where
  "ToNumber JUndefined = NaN"
| "ToNumber JNull = Fin 0"
| "ToNumber (JBool b) = Fin (if b then 1 else 0)"
| "ToNumber (JNum n) = n"
| "ToNumber (JStr s) = StringToNumber s"
| "ToNumber (JArr xs) = StringToNumber (ToString (JArr xs))"
| "ToNumber (JObj ps) = StringToNumber (ToString (JObj ps))"

subsection \<open>JSON.stringify\<close>

definition hex_char :: "nat \<Rightarrow> char" where
  "hex_char d = (if d < 10 then char_of (48 + d) else char_of (87 + d))"

text \<open>
  QuoteJSONString: the double quote (0x22) and the backslash (0x5C) are escaped with a
  backslash, the control characters by their short escape or by \<^verbatim>\<open>u00XX\<close>.
\<close>

definition json_escape :: "char \<Rightarrow> string" where
  "json_escape c =
     (let n = (of_char c :: nat) in
      if n = 0x22 then [CHR 0x5C, CHR 0x22]
      else if n = 0x5C then [CHR 0x5C, CHR 0x5C]
      else if n = 0x08 then [CHR 0x5C, CHR ''b'']
      else if n = 0x0C then [CHR 0x5C, CHR ''f'']
      else if n = 0x0A then [CHR 0x5C, CHR ''n'']
      else if n = 0x0D then [CHR 0x5C, CHR ''r'']
      else if n = 0x09 then [CHR 0x5C, CHR ''t'']
      else if n < 0x20 then
        [CHR 0x5C, CHR ''u'', CHR ''0'', CHR ''0'', hex_char (n div 16), hex_char (n mod 16)]
      else [c])"

definition QuoteJSONString :: "string \<Rightarrow> string" where
  "QuoteJSONString s = CHR 0x22 # concat (map json_escape s) @ [CHR 0x22]"

text \<open>
  \<^verbatim>\<open>JSON.stringify(v)\<close> with no replacer and no indentation. The result \<open>None\<close> stands for
  \<^verbatim>\<open>undefined\<close>. A property whose value is undefined is left out of an object, an undefined
  element of an array is written \<^verbatim>\<open>null\<close>, and so is a number that is not finite. The
  properties of an object are written in their enumeration order.
\<close>

fun JSON_stringify :: "jsval \<Rightarrow> string option"
  and json_elements :: "jsval list \<Rightarrow> string list"
  and json_properties :: "(string \<times> jsval) list \<Rightarrow> string list" where
  "JSON_stringify JUndefined = None"
| "JSON_stringify JNull = Some ''null''"
| "JSON_stringify (JBool b) = Some (if b then ''true'' else ''false'')"
| "JSON_stringify (JNum n) = Some (case n of Fin q \<Rightarrow> NumberToString n | _ \<Rightarrow> ''null'')"
| "JSON_stringify (JStr s) = Some (QuoteJSONString s)"
| "JSON_stringify (JArr xs) = Some (''['' @ join '','' (json_elements xs) @ '']'')"
| "JSON_stringify (JObj ps) = Some (''{'' @ join '','' (json_properties ps) @ ''}'')"
| "json_elements [] = []"
| "json_elements (x # xs) =
     (case JSON_stringify x of None \<Rightarrow> ''null'' | Some s \<Rightarrow> s) # json_elements xs"
| "json_properties [] = []"
| "json_properties ((k, v) # ps) =
     (case JSON_stringify v of
        None \<Rightarrow> json_properties ps
      | Some s \<Rightarrow> (QuoteJSONString k @ '':'' @ s) # json_properties ps)"

text \<open>
  The signature of a filter mapping: \<^verbatim>\<open>JSON.stringify(filters)\<close>, which is the key of the
  partition lookup built by \<^verbatim>\<open>fetchMetadata\<close> and of the cache in \<^verbatim>\<open>ensurePartitions\<close>.
\<close>

definition signature :: "obj \<Rightarrow> string" where
  "signature flt = ''{'' @ join '','' (json_properties flt) @ ''}''"

section \<open>Rows, slices and the column index\<close>

record slice =
  columns :: "string list"
  data :: "row list"

text \<open>
  \<^verbatim>\<open>createColumnIndex\<close>: every column name is set to its position, in order, so that the
  last position of a repeated name is the one kept.
\<close>

definition createColumnIndex :: "string list \<Rightarrow> (string \<rightharpoonup> nat)" where
  "createColumnIndex cols =
     fold (\<lambda>(name, idx) index. index(name \<mapsto> idx)) (zip cols [0..<length cols]) Map.empty"

section \<open>Filtering\<close>

text \<open>
  The callback of \<^verbatim>\<open>entries.every\<close> in \<^verbatim>\<open>filterRows\<close>: whether one row satisfies one
  constraint of the filter state.
\<close>

definition constraint_holds :: "(string \<rightharpoonup> nat) \<Rightarrow> row \<Rightarrow> string \<times> jsval \<Rightarrow> bool" where
  "constraint_holds columnIndex row entry =
     (case entry of (column, v) \<Rightarrow>
        (case columnIndex column of
           None \<Rightarrow> True
         | Some idx \<Rightarrow>
             (let cell = cell_at row (Some idx) in
              case v of
                JArr vs \<Rightarrow> vs = [] \<or> js_includes vs cell
              | _ \<Rightarrow> v = JStr [] \<or> strict_eq cell v)))"

text \<open>The entries of the filter state that are kept: \<^verbatim>\<open>value != null && value !== ''\<close>.\<close>

definition active_entries :: "obj \<Rightarrow> obj" where
  "active_entries flt = filter (\<lambda>(k, v). \<not> nullish v \<and> v \<noteq> JStr []) flt"

definition filterRows :: "(string \<rightharpoonup> nat) \<Rightarrow> row list \<Rightarrow> obj \<Rightarrow> row list" where
  "filterRows columnIndex rws flt =
     (let entries = active_entries flt in
      if entries = [] then rws
      else filter (\<lambda>row. list_all (constraint_holds columnIndex row) entries) rws)"

section \<open>Pivots\<close>

record metric =
  name :: string
  source :: string
  reducer :: string

text \<open>
  A bucket of the pivot table. Its \<open>values\<close> object is the list of its properties in
  the order in which they were first set; metric names are ordinary property names.
\<close>

record bucket =
  key :: string
  "values" :: "(string \<times> jsnum) list"
  rows :: "row list"

text \<open>
  The marker for a missing cell (U+2205) and the separator of the group key (U+00A6), as
  the bytes of their UTF-8 encoding.
\<close>

definition sentinel :: string where
  "sentinel = [CHR 0xE2, CHR 0x88, CHR 0x85]"

definition separator :: string where
  "separator = [CHR 0xC2, CHR 0xA6]"

definition groupKey_of :: "(string \<rightharpoonup> nat) \<Rightarrow> string list \<Rightarrow> row \<Rightarrow> string" where
  "groupKey_of columnIndex groupBy row =
     array_join separator
       (map (\<lambda>column. js_coalesce (cell_at row (columnIndex column)) (JStr sentinel)) groupBy)"

text \<open>\<^verbatim>\<open>Number(row[columnIndex.get(metric.source)] || 0)\<close>.\<close>

definition metric_value :: "(string \<rightharpoonup> nat) \<Rightarrow> metric \<Rightarrow> row \<Rightarrow> jsnum" where
  "metric_value columnIndex m row =
     ToNumber (js_or (cell_at row (columnIndex (source m))) (JNum (Fin 0)))"

text \<open>What one row adds for one metric; \<open>len\<close> is \<^verbatim>\<open>rows.length\<close>.\<close>

definition contribution :: "nat \<Rightarrow> (string \<rightharpoonup> nat) \<Rightarrow> metric \<Rightarrow> row \<Rightarrow> jsnum" where
  "contribution len columnIndex m row =
     (let v = metric_value columnIndex m row
      in if reducer m = ''avg'' then num_div v (Fin (of_nat len)) else v)"

text \<open>
  Reading a property of \<^verbatim>\<open>bucket.values\<close> for \<^verbatim>\<open>+=\<close>: a missing property is undefined,
  and undefined plus a number is NaN.
\<close>

definition prop_get :: "(string \<times> jsnum) list \<Rightarrow> string \<Rightarrow> jsnum" where
  "prop_get vs k = (case map_of vs k of None \<Rightarrow> NaN | Some v \<Rightarrow> v)"

definition new_bucket :: "metric list \<Rightarrow> string \<Rightarrow> bucket" where
  "new_bucket metrics groupKey =
     \<lparr>key = groupKey,
      values = fold (\<lambda>m vs. AList.update (name m) (Fin 0) vs) metrics [],
      rows = []\<rparr>"

definition accumulate ::
  "nat \<Rightarrow> (string \<rightharpoonup> nat) \<Rightarrow> row \<Rightarrow> metric \<Rightarrow> (string \<times> jsnum) list \<Rightarrow> (string \<times> jsnum) list" where
  "accumulate len columnIndex row m vs =
     AList.update (name m)
       (num_add (prop_get vs (name m)) (contribution len columnIndex m row)) vs"

text \<open>
  The body of the loop over the rows. The table is the insertion-ordered map from group
  keys to buckets; a bucket is changed in place, so its position in the table stays.
\<close>

definition pivot_step ::
  "nat \<Rightarrow> (string \<rightharpoonup> nat) \<Rightarrow> string list \<Rightarrow> metric list \<Rightarrow> row \<Rightarrow>
   (string \<times> bucket) list \<Rightarrow> (string \<times> bucket) list" where
  "pivot_step len columnIndex groupBy metrics row table =
     (let groupKey = groupKey_of columnIndex groupBy row;
          bucket0 = (case map_of table groupKey of
                       None \<Rightarrow> new_bucket metrics groupKey
                     | Some b \<Rightarrow> b);
          bucket1 = bucket0\<lparr>rows := rows bucket0 @ [row]\<rparr>;
          bucket2 = bucket1\<lparr>values :=
                      fold (accumulate len columnIndex row) metrics (values bucket1)\<rparr>
      in AList.update groupKey bucket2 table)"

definition buildPivot ::
  "row list \<Rightarrow> (string \<rightharpoonup> nat) \<Rightarrow> string list \<Rightarrow> metric list \<Rightarrow> bucket list" where
  "buildPivot rws columnIndex groupBy metrics =
     map snd (fold (pivot_step (length rws) columnIndex groupBy metrics) rws [])"





section \<open>The network and the partition fetcher\<close>

text \<open>
  A failed operation ends in an error: the \<^verbatim>\<open>Error\<close> that the loader throws on a
  response that is not ok, with its message, or the rejection of \<^verbatim>\<open>response.json()\<close> on
  a body that cannot be decoded.
\<close>

datatype error = FetchError string | DecodeError

text \<open>
  A response carries its status and what \<^verbatim>\<open>json()\<close> and \<^verbatim>\<open>text()\<close> deliver. The decoded
  body has the shape that the loader expects at that address (the metadata for
  \<^verbatim>\<open>index.json\<close>, columns and data for a partition); \<open>None\<close> is a body that does not
  decode.
\<close>

record 'a response =
  ok :: bool
  json_body :: "'a option"
  text_body :: string

record descriptor =
  filters :: obj
  path :: string

record metadata =
  partitions :: "descriptor list"
  format :: string

record network =
  manifest :: "metadata response"
  files :: "string \<Rightarrow> slice response"

definition DATA_ROOT :: string where
  "DATA_ROOT = ''./data''"

definition fetchMetadata :: "network \<Rightarrow> error + metadata \<times> (string \<rightharpoonup> descriptor)" where
  "fetchMetadata net =
     (let response = manifest net in
      if \<not> ok response then Inl (FetchError ''Unable to load dataset metadata'')
      else (case json_body response of
              None \<Rightarrow> Inl DecodeError
            | Some md \<Rightarrow>
                Inr (md, fold (\<lambda>part index. index(signature (filters part) \<mapsto> part))
                           (partitions md) Map.empty)))"

text \<open>\<^verbatim>\<open>s.split(sep)\<close> for a separator of one character: there is always at least one piece.\<close>

fun split_on :: "char \<Rightarrow> string \<Rightarrow> string list" where
  "split_on sep [] = [[]]"
| "split_on sep (c # cs) =
     (if c = sep then [] # split_on sep cs
      else (case split_on sep cs of
              [] \<Rightarrow> [[c]]
            | w # ws \<Rightarrow> (c # w) # ws))"

definition parse_csv :: "string \<Rightarrow> slice" where
  "parse_csv txt =
     (case split_on (CHR 0x0A) (trim txt) of
        [] \<Rightarrow> \<lparr>columns = [], data = []\<rparr>
      | header # lines \<Rightarrow>
          \<lparr>columns = split_on (CHR '','') header,
           data = map (\<lambda>line. map JStr (split_on (CHR '','') line)) lines\<rparr>)"

definition url_of :: "descriptor \<Rightarrow> string" where
  "url_of part = DATA_ROOT @ ''/'' @ path part"

definition loadPartitionSlice :: "network \<Rightarrow> descriptor \<Rightarrow> string \<Rightarrow> error + slice" where
  "loadPartitionSlice net part fmt =
     (let url = url_of part; response = files net url in
      if fmt = ''json'' then
        (if \<not> ok response then Inl (FetchError (''Failed to download '' @ url))
         else (case json_body response of
                 None \<Rightarrow> Inl DecodeError
               | Some sl \<Rightarrow> Inr \<lparr>columns = columns sl, data = data sl\<rparr>))
      else
        (if \<not> ok response then Inl (FetchError (''Failed to download '' @ url))
         else Inr (parse_csv (text_body response))))"

section \<open>The data store\<close>

text \<open>
  \<^verbatim>\<open>Promise.all\<close> over downloads that have all been started: the list of the results when
  every download succeeds, a rejection as soon as one fails. Which rejection comes first
  depends on timing; the model takes the first one in the order of the list.
\<close>

fun Promise_all :: "(error + 'a) list \<Rightarrow> error + 'a list" where
  "Promise_all [] = Inr []"
| "Promise_all (Inl e # ps) = Inl e"
| "Promise_all (Inr x # ps) =
     (case Promise_all ps of Inl e \<Rightarrow> Inl e | Inr xs \<Rightarrow> Inr (x # xs))"

text \<open>
  The state of one store: the constants of the closure (\<open>metadata\<close>,
  \<open>partitionsByFilter\<close>), its variables (\<open>cache\<close>, \<open>activeFilters\<close>), and two
  records of what the store did: the addresses it passed to \<^verbatim>\<open>fetch\<close>, in order, and the
  filter states it passed to \<^verbatim>\<open>emitter.emit\<close>. The callbacks of the subscribers are code
  of the caller and are not part of the model, and the operations run one after the other.
\<close>

record store =
  metadata :: metadata
  partitionsByFilter :: "string \<rightharpoonup> descriptor"
  cache :: "string \<rightharpoonup> slice"
  activeFilters :: obj
  requests :: "string list"
  emitted :: "obj list"

definition mergeSlices :: "slice list \<Rightarrow> slice" where
  "mergeSlices slices =
     (case slices of
        [] \<Rightarrow> \<lparr>columns = [], data = []\<rparr>
      | first # _ \<Rightarrow> \<lparr>columns = columns first, data = concat (map data slices)\<rparr>)"

definition ensurePartitions :: "network \<Rightarrow> obj \<Rightarrow> store \<Rightarrow> (error + slice) \<times> store" where
  "ensurePartitions net flt st =
     (let k = signature flt in
      case cache st k of
        Some cached \<Rightarrow> (Inr cached, st)
      | None \<Rightarrow>
          (case partitionsByFilter st k of
             None \<Rightarrow>
               (let st1 = st\<lparr>requests := requests st @ map url_of (partitions (metadata st))\<rparr> in
                case Promise_all
                       (map (\<lambda>p. loadPartitionSlice net p (format (metadata st)))
                          (partitions (metadata st))) of
                  Inl e \<Rightarrow> (Inl e, st1)
                | Inr downloads \<Rightarrow>
                    (let combined = mergeSlices downloads
                     in (Inr combined, st1\<lparr>cache := (cache st1)(k \<mapsto> combined)\<rparr>)))
           | Some part \<Rightarrow>
               (let st1 = st\<lparr>requests := requests st @ [url_of part]\<rparr> in
                case loadPartitionSlice net part (format (metadata st)) of
                  Inl e \<Rightarrow> (Inl e, st1)
                | Inr sl \<Rightarrow> (Inr sl, st1\<lparr>cache := (cache st1)(k \<mapsto> sl)\<rparr>))))"

definition getRows ::
  "network \<Rightarrow> obj \<Rightarrow> store \<Rightarrow> (error + (string \<rightharpoonup> nat) \<times> row list) \<times> store" where
  "getRows net flt st =
     (case ensurePartitions net flt st of
        (Inl e, st') \<Rightarrow> (Inl e, st')
      | (Inr sl, st') \<Rightarrow>
          (let columnIndex = createColumnIndex (columns sl)
           in (Inr (columnIndex, filterRows columnIndex (data sl) flt), st')))"

text \<open>\<^verbatim>\<open>{ ...a, ...patch }\<close>: a key of the patch overwrites in place or is added at the end.\<close>

definition spread :: "obj \<Rightarrow> obj \<Rightarrow> obj" where
  "spread a patch = fold (\<lambda>(k, v) acc. AList.update k v acc) patch a"

definition updateFilters ::
  "network \<Rightarrow> obj \<Rightarrow> store \<Rightarrow> (error + (string \<rightharpoonup> nat) \<times> row list) \<times> store" where
  "updateFilters net patch st =
     (let af = spread (activeFilters st) patch;
          st1 = st\<lparr>activeFilters := af, emitted := emitted st @ [af]\<rparr>
      in getRows net af st1)"

definition createDataStore :: "network \<Rightarrow> obj \<Rightarrow> error + store" where
  "createDataStore net initialFilters =
     (case fetchMetadata net of
        Inl e \<Rightarrow> Inl e
      | Inr (md, index) \<Rightarrow>
          Inr \<lparr>metadata = md, partitionsByFilter = index, cache = Map.empty,
               activeFilters = spread [] initialFilters,
               requests = [DATA_ROOT @ ''/index.json''], emitted = []\<rparr>)"

definition bootstrap ::
  "network \<Rightarrow> store \<Rightarrow> (error + (string \<rightharpoonup> nat) \<times> row list) \<times> store" where
  "bootstrap net st = getRows net (activeFilters st) st"

definition query ::
  "network \<Rightarrow> string list \<Rightarrow> metric list \<Rightarrow> store \<Rightarrow> (error + bucket list) \<times> store" where
  "query net groupBy metrics st =
     (case getRows net (activeFilters st) st of
        (Inl e, st') \<Rightarrow> (Inl e, st')
      | (Inr (columnIndex, rws), st') \<Rightarrow> (Inr (buildPivot rws columnIndex groupBy metrics), st'))"

definition setFilters ::
  "network \<Rightarrow> obj \<Rightarrow> store \<Rightarrow> (error + (string \<rightharpoonup> nat) \<times> row list) \<times> store" where
  "setFilters net nextFilters st = updateFilters net nextFilters st"




section \<open>A small dataset\<close>

text \<open>
  Two partitions by month and the network that serves them, a second network on which the
  second partition cannot be downloaded, and the store that \<^verbatim>\<open>createDataStore\<close> builds
  from the manifest.
\<close>

definition slice_jan :: slice where
  "slice_jan =
     \<lparr>columns = [''date'', ''store'', ''spend''],
      data = [[JStr ''2024-01'', JStr ''A'', JNum (Fin 10)],
              [JStr ''2024-01'', JStr ''B'', JNum (Fin 5)]]\<rparr>"

definition slice_feb :: slice where
  "slice_feb =
     \<lparr>columns = [''date'', ''store'', ''spend''],
      data = [[JStr ''2024-02'', JStr ''A'', JNum (Fin 7)]]\<rparr>"

definition example_metadata :: metadata where
  "example_metadata =
     \<lparr>partitions =
        [\<lparr>filters = [(''date'', JStr ''2024-01'')], path = ''a.json''\<rparr>,
         \<lparr>filters = [(''date'', JStr ''2024-02'')], path = ''b.json''\<rparr>],
      format = ''json''\<rparr>"

definition example_net :: network where
  "example_net =
     \<lparr>manifest = \<lparr>ok = True, json_body = Some example_metadata, text_body = []\<rparr>,
      files = (\<lambda>url.
        if url = ''./data/a.json'' then \<lparr>ok = True, json_body = Some slice_jan, text_body = []\<rparr>
        else if url = ''./data/b.json'' then \<lparr>ok = True, json_body = Some slice_feb, text_body = []\<rparr>
        else \<lparr>ok = False, json_body = None, text_body = []\<rparr>)\<rparr>"

definition broken_net :: network where
  "broken_net =
     \<lparr>manifest = \<lparr>ok = True, json_body = Some example_metadata, text_body = []\<rparr>,
      files = (\<lambda>url.
        if url = ''./data/a.json'' then \<lparr>ok = True, json_body = Some slice_jan, text_body = []\<rparr>
        else \<lparr>ok = False, json_body = None, text_body = []\<rparr>)\<rparr>"

definition example_store :: store where
  "example_store =
     \<lparr>metadata = example_metadata,
      partitionsByFilter =
        fold (\<lambda>part index. index(signature (filters part) \<mapsto> part))
          (partitions example_metadata) Map.empty,
      cache = Map.empty,
      activeFilters = [],
      requests = [''./data/index.json''],
      emitted = []\<rparr>"



section \<open>Properties of filtering\<close>

lemma constraint_holds_absent:
  "columnIndex column = None \<Longrightarrow> constraint_holds columnIndex row (column, v)"
  by (simp add: constraint_holds_def)

lemma constraint_holds_empty_array:
  "constraint_holds columnIndex row (column, JArr [])"
  by (simp add: constraint_holds_def split: option.splits)

lemma includes_primitive:
  "js_includes vs x \<longleftrightarrow> primitive x \<and> x \<in> set vs"
  by (auto simp: js_includes_def same_value_zero_def list_ex_iff)

lemma filterRows_all:
  assumes "\<And>row. row \<in> set rws \<Longrightarrow> list_all (constraint_holds columnIndex row) (active_entries flt)"
  shows "filterRows columnIndex rws flt = rws"
proof -
  have "filter (\<lambda>row. list_all (constraint_holds columnIndex row) (active_entries flt)) rws = rws"
    using assms by (simp add: filter_id_conv)
  then show ?thesis
    by (simp add: filterRows_def Let_def)
qed

text \<open>
  Claim C7. Under a filter state in which every constraint value is absent (undefined),
  null, the empty string or the empty sequence, filtering returns its input: the same
  rows in the same order, whatever the column index and the rows are.
\<close>

theorem filterRows_unconstrained_identity:
  assumes "\<forall>(k, v) \<in> set flt. v = JUndefined \<or> v = JNull \<or> v = JStr [] \<or> v = JArr []"
  shows "filterRows columnIndex rws flt = rws"
proof (rule filterRows_all)
  fix row
  have "constraint_holds columnIndex row e" if "e \<in> set (active_entries flt)" for e
  proof -
    obtain k v where e: "e = (k, v)" by (cases e)
    from that e have "(k, v) \<in> set flt" and "\<not> nullish v" and "v \<noteq> JStr []"
      by (auto simp: active_entries_def)
    with assms have "v = JArr []"
      by (auto simp: nullish_def)
    with e show ?thesis
      by (simp add: constraint_holds_empty_array)
  qed
  then show "list_all (constraint_holds columnIndex row) (active_entries flt)"
    by (simp add: list_all_iff)
qed

theorem filterRows_unconstrained_identity_witness:
  "filterRows (createColumnIndex [''date'', ''store''])
     [[JStr ''2024-01'', JStr ''A''], [JStr ''2024-02'', JStr ''B'']]
     [(''date'', JStr []), (''store'', JNull), (''asin'', JArr []), (''category'', JUndefined)]
   = [[JStr ''2024-01'', JStr ''A''], [JStr ''2024-02'', JStr ''B'']]"
  using filterRows_unconstrained_identity
    [of "[(''date'', JStr []), (''store'', JNull), (''asin'', JArr []), (''category'', JUndefined)]"
        "createColumnIndex [''date'', ''store'']"
        "[[JStr ''2024-01'', JStr ''A''], [JStr ''2024-02'', JStr ''B'']]"]
  by simp

lemma active_entries_filter:
  "active_entries (filter Q flt) = filter Q (active_entries flt)"
  by (induction flt) (auto simp: active_entries_def)

lemma filterRows_content:
  "filterRows columnIndex rws flt =
     filter (\<lambda>row. list_all (constraint_holds columnIndex row) (active_entries flt)) rws"
  by (simp add: filterRows_def Let_def)

text \<open>
  Claim C8. A constraint on a column that the row index does not have holds for every
  row, and leaving the constraints on that column out of the filter state does not change
  the result of filtering: no row is dropped because of it.
\<close>

theorem absent_column_fails_open:
  assumes "columnIndex column = None"
  shows "constraint_holds columnIndex row (column, v) \<and>
         filterRows columnIndex rws flt =
           filterRows columnIndex rws (filter (\<lambda>(c, w). c \<noteq> column) flt)"
proof
  show "constraint_holds columnIndex row (column, v)"
    using assms by (rule constraint_holds_absent)
next
  let ?Q = "\<lambda>(c, w). c \<noteq> column"
  have "list_all (constraint_holds columnIndex r) (active_entries flt) \<longleftrightarrow>
        list_all (constraint_holds columnIndex r) (filter ?Q (active_entries flt))" for r
  proof
    assume "list_all (constraint_holds columnIndex r) (active_entries flt)"
    then show "list_all (constraint_holds columnIndex r) (filter ?Q (active_entries flt))"
      by (simp add: list_all_iff)
  next
    assume kept: "list_all (constraint_holds columnIndex r) (filter ?Q (active_entries flt))"
    have "constraint_holds columnIndex r e" if "e \<in> set (active_entries flt)" for e
    proof (cases "?Q e")
      case True
      with that kept show ?thesis
        by (cases e) (auto simp: list_all_iff)
    next
      case False
      then obtain w where "e = (column, w)"
        by (cases e) auto
      with assms show ?thesis
        by (simp add: constraint_holds_absent)
    qed
    then show "list_all (constraint_holds columnIndex r) (active_entries flt)"
      by (simp add: list_all_iff)
  qed
  then show "filterRows columnIndex rws flt = filterRows columnIndex rws (filter ?Q flt)"
    by (simp add: filterRows_content active_entries_filter)
qed

theorem absent_column_fails_open_witness:
  "createColumnIndex [''date'', ''store''] ''asin'' = None \<and>
   constraint_holds (createColumnIndex [''date'', ''store''])
     [JStr ''2024-01'', JStr ''A''] (''asin'', JStr ''B00X'') \<and>
   filterRows (createColumnIndex [''date'', ''store''])
     [[JStr ''2024-01'', JStr ''A''], [JStr ''2024-02'', JStr ''B'']]
     [(''asin'', JStr ''B00X''), (''store'', JStr ''B'')]
   = [[JStr ''2024-02'', JStr ''B'']]"
proof -
  have h: "createColumnIndex [''date'', ''store''] ''asin'' = None"
    by (simp add: createColumnIndex_def upt_rec)
  have r: "filterRows (createColumnIndex [''date'', ''store''])
     [[JStr ''2024-01'', JStr ''A''], [JStr ''2024-02'', JStr ''B'']]
     [(''store'', JStr ''B'')] = [[JStr ''2024-02'', JStr ''B'']]"
    by (simp add: filterRows_def active_entries_def nullish_def constraint_holds_def
        createColumnIndex_def upt_rec cell_at_def strict_eq_def)
  show ?thesis
    using h r absent_column_fails_open [of "createColumnIndex [''date'', ''store'']" "''asin''"
        "[JStr ''2024-01'', JStr ''A'']" "JStr ''B00X''"
        "[[JStr ''2024-01'', JStr ''A''], [JStr ''2024-02'', JStr ''B'']]"
        "[(''asin'', JStr ''B00X''), (''store'', JStr ''B'')]"]
    by simp
qed

text \<open>
  Claim C9. For a constraint whose value is a sequence, on a column that the row index
  has: the row satisfies the constraint if and only if the sequence is empty or includes
  the row's cell for that column; inclusion is membership of a cell that is not an array
  or object; and filtering by that single constraint keeps exactly the rows for which this
  holds.
\<close>

theorem sequence_constraint_membership:
  assumes "columnIndex column = Some idx"
  shows "(constraint_holds columnIndex row (column, JArr vs) \<longleftrightarrow>
            vs = [] \<or> js_includes vs (cell_at row (Some idx))) \<and>
         (js_includes vs (cell_at row (Some idx)) \<longleftrightarrow>
            primitive (cell_at row (Some idx)) \<and> cell_at row (Some idx) \<in> set vs) \<and>
         (row \<in> set (filterRows columnIndex rws [(column, JArr vs)]) \<longleftrightarrow>
            row \<in> set rws \<and> (vs = [] \<or> js_includes vs (cell_at row (Some idx))))"
proof -
  have c: "constraint_holds columnIndex r (column, JArr vs) \<longleftrightarrow>
           vs = [] \<or> js_includes vs (cell_at r (Some idx))" for r
    using assms by (simp add: constraint_holds_def)
  have "active_entries [(column, JArr vs)] = [(column, JArr vs)]"
    by (simp add: active_entries_def nullish_def)
  then have "row \<in> set (filterRows columnIndex rws [(column, JArr vs)]) \<longleftrightarrow>
             row \<in> set rws \<and> constraint_holds columnIndex row (column, JArr vs)"
    by (simp add: filterRows_content)
  with c [of row] show ?thesis
    by (simp add: includes_primitive)
qed

theorem sequence_constraint_membership_witness:
  "createColumnIndex [''date'', ''store''] ''store'' = Some 1 \<and>
   constraint_holds (createColumnIndex [''date'', ''store''])
     [JStr ''2024-01'', JStr ''A''] (''store'', JArr [JStr ''B'', JStr ''A'']) \<and>
   \<not> constraint_holds (createColumnIndex [''date'', ''store''])
     [JStr ''2024-01'', JStr ''C''] (''store'', JArr [JStr ''B'', JStr ''A'']) \<and>
   constraint_holds (createColumnIndex [''date'', ''store''])
     [JStr ''2024-01'', JStr ''C''] (''store'', JArr [])"
proof -
  have h: "createColumnIndex [''date'', ''store''] ''store'' = Some 1"
    by (simp add: createColumnIndex_def upt_rec)
  show ?thesis
    using h
      sequence_constraint_membership [of "createColumnIndex [''date'', ''store'']" "''store''" 1
        "[JStr ''2024-01'', JStr ''A'']" "[JStr ''B'', JStr ''A'']" "[]"]
      sequence_constraint_membership [of "createColumnIndex [''date'', ''store'']" "''store''" 1
        "[JStr ''2024-01'', JStr ''C'']" "[JStr ''B'', JStr ''A'']" "[]"]
      sequence_constraint_membership [of "createColumnIndex [''date'', ''store'']" "''store''" 1
        "[JStr ''2024-01'', JStr ''C'']" "[]" "[]"]
    by (simp add: cell_at_def js_includes_def same_value_zero_def)
qed

section \<open>Properties of the pivot aggregator\<close>


























section \<open>Properties of the signature\<close>

lemma signature_is_JSON_stringify: "JSON_stringify (JObj flt) = Some (signature flt)"
  by (simp add: signature_def)





section \<open>Properties of the data store\<close>

lemma Promise_all_Inr: "Promise_all (map Inr xs) = Inr xs"
  by (induction xs) simp_all

lemma Promise_all_fails: "\<exists>x \<in> set ps. isl x \<Longrightarrow> isl (Promise_all ps)"
  by (induction ps rule: Promise_all.induct) (auto split: sum.splits)

lemma loadPartitionSlice_not_ok:
  "\<not> ok (files net (url_of p)) \<Longrightarrow> isl (loadPartitionSlice net p fmt)"
  by (simp add: loadPartitionSlice_def Let_def)

lemma snd_getRows: "snd (getRows net flt st) = snd (ensurePartitions net flt st)"
  by (simp add: getRows_def Let_def split: prod.splits sum.splits)

lemma isl_getRows: "isl (fst (getRows net flt st)) = isl (fst (ensurePartitions net flt st))"
  by (simp add: getRows_def Let_def split: prod.splits sum.splits)

lemma snd_query: "snd (query net groupBy metrics st) = snd (getRows net (activeFilters st) st)"
  by (simp add: query_def split: prod.splits sum.splits)

lemma isl_query:
  "isl (fst (query net groupBy metrics st)) = isl (fst (getRows net (activeFilters st) st))"
  by (simp add: query_def split: prod.splits sum.splits)









lemma fallback_failure:
  assumes "cache st (signature flt) = None"
    and "partitionsByFilter st (signature flt) = None"
    and "p \<in> set (partitions (metadata st))"
    and "\<not> ok (files net (url_of p))"
  shows "\<exists>e. ensurePartitions net flt st =
           (Inl e, st\<lparr>requests := requests st @ map url_of (partitions (metadata st))\<rparr>)"
proof -
  let ?ps = "map (\<lambda>p. loadPartitionSlice net p (format (metadata st))) (partitions (metadata st))"
  from assms(3,4) have "\<exists>x \<in> set ?ps. isl x"
    by (auto intro: loadPartitionSlice_not_ok)
  then have "isl (Promise_all ?ps)"
    by (rule Promise_all_fails)
  then obtain e where "Promise_all ?ps = Inl e"
    by (auto simp: isl_def)
  with assms(1,2) show ?thesis
    by (simp add: ensurePartitions_def Let_def)
qed

text \<open>
  Claim C4. When the cache has no entry for the signature of the filter state and the
  signature matches no partition descriptor of the index, and every download succeeds,
  partition resolution requests every declared partition, returns the merged slice and
  stores it in the cache under that signature; the merged slice has the columns of the
  first download and the rows of all downloads, in order, so that its row count is the sum
  of the row counts of the partitions.
\<close>

theorem fallback_merges_all_partitions:
  assumes "cache st (signature flt) = None"
    and "partitionsByFilter st (signature flt) = None"
    and "map (\<lambda>p. loadPartitionSlice net p (format (metadata st))) (partitions (metadata st)) =
         map Inr downloads"
  shows "ensurePartitions net flt st =
           (Inr (mergeSlices downloads),
            st\<lparr>requests := requests st @ map url_of (partitions (metadata st)),
               cache := (cache st)(signature flt \<mapsto> mergeSlices downloads)\<rparr>) \<and>
         columns (mergeSlices downloads) =
           (case downloads of [] \<Rightarrow> [] | first # others \<Rightarrow> columns first) \<and>
         data (mergeSlices downloads) = concat (map data downloads) \<and>
         length (data (mergeSlices downloads)) = sum_list (map (\<lambda>sl. length (data sl)) downloads)"
proof -
  have "ensurePartitions net flt st =
           (Inr (mergeSlices downloads),
            st\<lparr>requests := requests st @ map url_of (partitions (metadata st)),
               cache := (cache st)(signature flt \<mapsto> mergeSlices downloads)\<rparr>)"
    using assms by (simp add: ensurePartitions_def Let_def Promise_all_Inr)
  moreover have "columns (mergeSlices downloads) =
           (case downloads of [] \<Rightarrow> [] | first # others \<Rightarrow> columns first)"
    and "data (mergeSlices downloads) = concat (map data downloads)"
    by (simp_all add: mergeSlices_def split: list.splits)
  moreover have "length (concat (map data downloads)) =
           sum_list (map (\<lambda>sl. length (data sl)) downloads)"
    by (simp add: length_concat comp_def)
  ultimately show ?thesis
    by simp
qed

theorem fallback_merges_all_partitions_witness:
  "fst (ensurePartitions example_net [(''date'', JStr ''2099-01'')] example_store) =
     Inr (mergeSlices [slice_jan, slice_feb]) \<and>
   requests (snd (ensurePartitions example_net [(''date'', JStr ''2099-01'')] example_store)) =
     [''./data/index.json'', ''./data/a.json'', ''./data/b.json''] \<and>
   cache (snd (ensurePartitions example_net [(''date'', JStr ''2099-01'')] example_store))
     (signature [(''date'', JStr ''2099-01'')]) = Some (mergeSlices [slice_jan, slice_feb]) \<and>
   length (data (mergeSlices [slice_jan, slice_feb])) = 3"
proof -
  let ?flt = "[(''date'', JStr ''2099-01'')]"
  have h1: "cache example_store (signature ?flt) = None"
    by (simp add: example_store_def)
  have h2: "partitionsByFilter example_store (signature ?flt) = None"
    by code_simp
  have h3: "map (\<lambda>p. loadPartitionSlice example_net p (format (metadata example_store)))
              (partitions (metadata example_store)) = map Inr [slice_jan, slice_feb]"
    by code_simp
  have u: "requests example_store @ map url_of (partitions (metadata example_store)) =
           [''./data/index.json'', ''./data/a.json'', ''./data/b.json'']"
    by code_simp
  from fallback_merges_all_partitions [OF h1 h2 h3] u show ?thesis
    by (simp add: slice_jan_def slice_feb_def)
qed



text \<open>
  Claim C6. When the cache has no entry for the signature, the signature matches no
  partition descriptor, and the download of some declared partition ends in a response
  that is not ok, then partition resolution ends in an error and returns no slice, the
  cache is left as it was, and the error reaches the caller of \<^verbatim>\<open>bootstrap\<close>,
  \<^verbatim>\<open>query\<close> and \<^verbatim>\<open>setFilters\<close>.
\<close>

theorem fallback_failure_rejects_and_keeps_cache:
  assumes "cache st (signature flt) = None"
    and "partitionsByFilter st (signature flt) = None"
    and "p \<in> set (partitions (metadata st))"
    and "\<not> ok (files net (url_of p))"
  shows "isl (fst (ensurePartitions net flt st)) \<and>
         cache (snd (ensurePartitions net flt st)) = cache st \<and>
         (activeFilters st = flt \<longrightarrow>
            isl (fst (bootstrap net st)) \<and> cache (snd (bootstrap net st)) = cache st \<and>
            isl (fst (query net groupBy metrics st)) \<and>
            cache (snd (query net groupBy metrics st)) = cache st) \<and>
         (spread (activeFilters st) patch = flt \<longrightarrow>
            isl (fst (setFilters net patch st)) \<and>
            cache (snd (setFilters net patch st)) = cache st)"
proof -
  from fallback_failure [OF assms]
  have e: "isl (fst (ensurePartitions net flt st))"
    and c: "cache (snd (ensurePartitions net flt st)) = cache st"
    by auto
  have "isl (fst (setFilters net patch st)) \<and> cache (snd (setFilters net patch st)) = cache st"
    if "spread (activeFilters st) patch = flt"
  proof -
    let ?st1 = "st\<lparr>activeFilters := flt, emitted := emitted st @ [flt]\<rparr>"
    have "cache ?st1 (signature flt) = None" "partitionsByFilter ?st1 (signature flt) = None"
      "p \<in> set (partitions (metadata ?st1))"
      using assms by simp_all
    from fallback_failure [OF this assms(4)]
    have "isl (fst (ensurePartitions net flt ?st1))"
      and "cache (snd (ensurePartitions net flt ?st1)) = cache st"
      by auto
    with that show ?thesis
      by (simp add: setFilters_def updateFilters_def Let_def isl_getRows snd_getRows)
  qed
  with e c show ?thesis
    by (simp add: bootstrap_def isl_query snd_query isl_getRows snd_getRows)
qed

theorem fallback_failure_rejects_and_keeps_cache_witness:
  "isl (fst (setFilters broken_net [(''date'', JStr ''2099-01'')] example_store)) \<and>
   projl (fst (setFilters broken_net [(''date'', JStr ''2099-01'')] example_store)) =
     FetchError ''Failed to download ./data/b.json'' \<and>
   cache (snd (setFilters broken_net [(''date'', JStr ''2099-01'')] example_store)) =
     cache example_store"
proof -
  let ?flt = "[(''date'', JStr ''2099-01'')]"
  let ?p = "\<lparr>filters = [(''date'', JStr ''2024-02'')], path = ''b.json''\<rparr>"
  have h1: "cache example_store (signature ?flt) = None"
    by (simp add: example_store_def)
  have h2: "partitionsByFilter example_store (signature ?flt) = None"
    by code_simp
  have h3: "?p \<in> set (partitions (metadata example_store))"
    by (simp add: example_store_def example_metadata_def)
  have h4: "\<not> ok (files broken_net (url_of ?p))"
    by code_simp
  have s: "spread (activeFilters example_store) ?flt = ?flt"
    by (simp add: spread_def example_store_def)
  have v: "projl (fst (setFilters broken_net ?flt example_store)) =
             FetchError ''Failed to download ./data/b.json''"
    by code_simp
  from fallback_failure_rejects_and_keeps_cache [OF h1 h2 h3 h4, of "[]" "[]" ?flt] s v
  show ?thesis
    by simp
qed

end
